theory Spec2Isabelle
  imports Complex_Main "HOL-Library.Word"
begin

section \<open>The native map object behind the handle\<close>

text \<open>
  The Go package \<^verbatim>\<open>mapnik\<close> (file \<^verbatim>\<open>mapnik.go\<close>) wraps the C API declared in
  \<^verbatim>\<open>mapnik_c_api.h\<close>. The bodies of the C functions are not part of the sources at hand;
  only their declarations are. The object a \<^verbatim>\<open>mapnik_map_t *\<close> points to is modelled as a
  record, and each C function the wrapper calls as a function on that record.

  A layer carries its name, its SRS and its active flag. The map carries the canvas size
  (\<^verbatim>\<open>unsigned int\<close>), the SRS string, the current view extent (\<open>minx\<close>, \<open>miny\<close>,
  \<open>maxx\<close>, \<open>maxy\<close>), the aspect-fix mode (the \<^verbatim>\<open>int\<close> the C API exchanges) and the
  ordered layers.
  The field \<open>set_active_calls\<close> is a log of the calls of
  \<^verbatim>\<open>mapnik_map_layer_set_active\<close> (index and the \<^verbatim>\<open>int\<close> passed), in the order they
  were made: this is the only C function of the API that writes an active flag, so the log
  tells "no flag was written" apart from "a flag was rewritten with the value it had".
\<close>

record mapnik_layer_t =
  layer_name :: string
  layer_srs :: string
  layer_active :: bool

record mapnik_map_t =
  map_width :: nat
  map_height :: nat
  map_srs :: string
  map_extent :: "real \<times> real \<times> real \<times> real"
  map_aspect_fix_mode :: int
  map_layers :: "mapnik_layer_t list"
  set_active_calls :: "(nat \<times> int) list"

text \<open>
  Modelled from the spec: \<^verbatim>\<open>int mapnik_map_layer_count(mapnik_map_t *)\<close>, declared in the
  header only. The layer count is "whatever the live engine reports at call time": the number
  of layers the map currently holds.
\<close>

definition mapnik_map_layer_count :: "mapnik_map_t \<Rightarrow> nat" where
  "mapnik_map_layer_count nm = length (map_layers nm)"

text \<open>
  Modelled from the spec: \<^verbatim>\<open>const char *mapnik_map_layer_name(mapnik_map_t *, size_t idx)\<close>,
  declared in the header only. The wrapper calls it with \<open>idx\<close> below the layer count only; the
  value given here for other indices (the empty string) is never used by the wrapper.
\<close>

definition mapnik_map_layer_name :: "mapnik_map_t \<Rightarrow> nat \<Rightarrow> string" where
  "mapnik_map_layer_name nm idx =
     (if idx < length (map_layers nm) then layer_name (map_layers nm ! idx) else [])"

text \<open>
  Modelled from the spec: \<^verbatim>\<open>int mapnik_map_layer_is_active(mapnik_map_t *, size_t idx)\<close>,
  declared in the header only: 1 for an active layer, 0 otherwise.
\<close>

definition mapnik_map_layer_is_active :: "mapnik_map_t \<Rightarrow> nat \<Rightarrow> int" where
  "mapnik_map_layer_is_active nm idx =
     (if idx < length (map_layers nm) \<and> layer_active (map_layers nm ! idx) then 1 else 0)"

text \<open>
  Modelled from the spec:
  \<^verbatim>\<open>void mapnik_map_layer_set_active(mapnik_map_t *, size_t idx, int active)\<close>, declared in
  the header only: the flag of layer \<open>idx\<close> becomes \<open>active \<noteq> 0\<close>, every other layer and every
  other attribute of the map stays. The call is appended to the log.
\<close>

definition mapnik_map_layer_set_active :: "mapnik_map_t \<Rightarrow> nat \<Rightarrow> int \<Rightarrow> mapnik_map_t" where
  "mapnik_map_layer_set_active nm idx active =
     nm\<lparr>map_layers :=
          (if idx < length (map_layers nm)
           then (map_layers nm)[idx := (map_layers nm ! idx)\<lparr>layer_active := (active \<noteq> 0)\<rparr>]
           else map_layers nm),
        set_active_calls := set_active_calls nm @ [(idx, active)]\<rparr>"

text \<open>
  Modelled from the spec: \<^verbatim>\<open>void mapnik_map_add_layer(mapnik_map_t *, mapnik_layer_t *)\<close>,
  declared in the header only: the layer is appended to the ordered sequence of layers.
\<close>

definition mapnik_map_add_layer :: "mapnik_map_t \<Rightarrow> mapnik_layer_t \<Rightarrow> mapnik_map_t" where
  "mapnik_map_add_layer nm l = nm\<lparr>map_layers := map_layers nm @ [l]\<rparr>"

section \<open>The Go side: \<^verbatim>\<open>type Map struct\<close>\<close>

text \<open>
  \<^verbatim>\<open>type Map struct { m *C.struct__mapnik_map_t; width int; height int; layerStatus []bool }\<close>

  The field \<open>m\<close> holds the native object (the handle is taken to be live: \<^verbatim>\<open>Free\<close> is not
  modelled). Go's \<^verbatim>\<open>int\<close> is a 64-bit word (its width on amd64 and arm64): arithmetic
  wraps, and \<open>sint\<close> reads the signed value. A Go slice is \<open>None\<close> when it is \<^verbatim>\<open>nil\<close>
  and \<open>Some xs\<close> otherwise; \<^verbatim>\<open>len\<close> of a nil slice is 0.
\<close>

type_synonym go_int = "64 word"

record Map =
  m_handle :: mapnik_map_t
  width :: go_int
  height :: go_int
  layerStatus :: "bool list option"

fun len :: "'a list option \<Rightarrow> nat" where
  "len None = 0"
| "len (Some xs) = length xs"

fun elems :: "'a list option \<Rightarrow> 'a list" where
  "elems None = []"
| "elems (Some xs) = xs"

datatype go_panic = IndexOutOfRange

text \<open>\<^verbatim>\<open>func (m *Map) CountLayers() int\<close>\<close>

definition CountLayers :: "Map \<Rightarrow> nat" where
  "CountLayers mp = mapnik_map_layer_count (m_handle mp)"

text \<open>
  \<^verbatim>\<open>func (m *Map) currentLayerStatus() []bool\<close>: \<^verbatim>\<open>active := make([]bool, n)\<close>, then the
  loop \<^verbatim>\<open>for i := 0; i < n; i++\<close> sets \<^verbatim>\<open>active[i] = true\<close> where the engine reports 1.
  The index \<open>i\<close> is below \<open>n\<close>, the length of \<open>active\<close>, so the store never panics.
\<close>

function currentLayerStatus_loop :: "mapnik_map_t \<Rightarrow> nat \<Rightarrow> nat \<Rightarrow> bool list \<Rightarrow> bool list" where
  "currentLayerStatus_loop nm n i active =
     (if i < n
      then currentLayerStatus_loop nm n (i + 1)
             (if mapnik_map_layer_is_active nm i = 1 then active[i := True] else active)
      else active)"
  by pat_completeness auto
termination
  by (relation "measure (\<lambda>(nm, n, i, active). n - i)") auto

definition currentLayerStatus :: "Map \<Rightarrow> bool list" where
  "currentLayerStatus mp =
     (let n = CountLayers mp in currentLayerStatus_loop (m_handle mp) n 0 (replicate n False))"

text \<open>
  \<^verbatim>\<open>func (m *Map) storeLayerStatus()\<close>: returns at once when \<^verbatim>\<open>len(m.layerStatus) > 0\<close>
  ("allready stored"), stores the current flags otherwise.
\<close>

definition storeLayerStatus :: "Map \<Rightarrow> Map" where
  "storeLayerStatus mp =
     (if len (layerStatus mp) > 0 then mp
      else mp\<lparr>layerStatus := Some (currentLayerStatus mp)\<rparr>)"

text \<open>
  \<^verbatim>\<open>func (m *Map) resetLayerStatus()\<close>. The loop reads \<^verbatim>\<open>m.layerStatus[i]\<close>; Go panics
  when \<open>i\<close> is not below the length of the slice, and the model returns \<open>Inl IndexOutOfRange\<close>
  there. After the loop the slice is set to \<^verbatim>\<open>nil\<close>.
\<close>

function resetLayerStatus_loop ::
  "bool list \<Rightarrow> nat \<Rightarrow> nat \<Rightarrow> mapnik_map_t \<Rightarrow> go_panic + mapnik_map_t" where
  "resetLayerStatus_loop st n i nm =
     (if i < n
      then (if i < length st
            then resetLayerStatus_loop st n (i + 1)
                   (if st ! i then mapnik_map_layer_set_active nm i 1
                    else mapnik_map_layer_set_active nm i 0)
            else Inl IndexOutOfRange)
      else Inr nm)"
  by pat_completeness auto
termination
  by (relation "measure (\<lambda>(st, n, i, nm). n - i)") auto

definition resetLayerStatus :: "Map \<Rightarrow> go_panic + Map" where
  "resetLayerStatus mp =
     (if len (layerStatus mp) = 0 then Inr mp
      else let n = CountLayers mp in
        if n > len (layerStatus mp) then Inr mp
        else (case resetLayerStatus_loop (elems (layerStatus mp)) n 0 (m_handle mp) of
                Inl p \<Rightarrow> Inl p
              | Inr nm \<Rightarrow> Inr (mp\<lparr>m_handle := nm, layerStatus := None\<rparr>)))"

text \<open>
  \<^verbatim>\<open>type Status int\<close> with \<^verbatim>\<open>Exclude = -1\<close>, \<^verbatim>\<open>Default = 0\<close>, \<^verbatim>\<open>Include = 1\<close>.
  A selector (\<^verbatim>\<open>LayerSelector\<close>, \<^verbatim>\<open>SelectorFunc\<close>) is a function from the layer name to
  a \<open>Status\<close>; it may return any \<^verbatim>\<open>int\<close>, and the \<^verbatim>\<open>switch\<close> of \<^verbatim>\<open>SelectLayers\<close> does
  nothing for a value that is none of the three.
\<close>

type_synonym Status = int

definition Exclude :: Status where "Exclude = - 1"
definition Default :: Status where "Default = 0"
definition Include :: Status where "Include = 1"

text \<open>\<^verbatim>\<open>func (m *Map) AddLayer(l *Layer)\<close>\<close>

definition AddLayer :: "Map \<Rightarrow> mapnik_layer_t \<Rightarrow> Map" where
  "AddLayer mp l = mp\<lparr>m_handle := mapnik_map_add_layer (m_handle mp) l\<rparr>"

text \<open>
  \<^verbatim>\<open>func (m *Map) SelectLayers(selector LayerSelector)\<close>: \<^verbatim>\<open>m.storeLayerStatus()\<close>,
  \<^verbatim>\<open>n := m.CountLayers()\<close>, then the loop over \<open>i\<close> from 0 below \<open>n\<close>.
\<close>

function SelectLayers_loop ::
  "(string \<Rightarrow> Status) \<Rightarrow> nat \<Rightarrow> nat \<Rightarrow> mapnik_map_t \<Rightarrow> mapnik_map_t" where
  "SelectLayers_loop selector n i nm =
     (if i < n
      then SelectLayers_loop selector n (i + 1)
             (let layerName = mapnik_map_layer_name nm i;
                  s = selector layerName
              in if s = Include then mapnik_map_layer_set_active nm i 1
                 else if s = Exclude then mapnik_map_layer_set_active nm i 0
                 else nm)
      else nm)"
  by pat_completeness auto
termination
  by (relation "measure (\<lambda>(selector, n, i, nm). n - i)") auto

definition SelectLayers :: "(string \<Rightarrow> Status) \<Rightarrow> Map \<Rightarrow> Map" where
  "SelectLayers selector mp =
     (let mp1 = storeLayerStatus mp; n = CountLayers mp1
      in mp1\<lparr>m_handle := SelectLayers_loop selector n 0 (m_handle mp1)\<rparr>)"

text \<open>\<^verbatim>\<open>func (m *Map) ResetLayers()\<close>\<close>

definition ResetLayers :: "Map \<Rightarrow> go_panic + Map" where
  "ResetLayers mp = resetLayerStatus mp"

text \<open>
  The two states of the layer-activation machine, as the guards of \<^verbatim>\<open>storeLayerStatus\<close>
  and \<^verbatim>\<open>resetLayerStatus\<close> tell them apart: a snapshot is held (\<open>Saved\<close>) when
  \<^verbatim>\<open>len(m.layerStatus) > 0\<close>.
\<close>

definition Saved :: "Map \<Rightarrow> bool" where
  "Saved mp = (len (layerStatus mp) > 0)"

text \<open>The active flags and the names of the layers, in index order.\<close>

definition flags :: "mapnik_map_t \<Rightarrow> bool list" where
  "flags nm = map layer_active (map_layers nm)"

definition names :: "mapnik_map_t \<Rightarrow> string list" where
  "names nm = map layer_name (map_layers nm)"

section \<open>Canvas size, projection and aspect-fix mode\<close>

text \<open>
  \<^verbatim>\<open>C.uint(width)\<close> converts a Go \<^verbatim>\<open>int\<close> to C's 32-bit \<^verbatim>\<open>unsigned int\<close> and
  \<^verbatim>\<open>C.int(x)\<close> to C's 32-bit \<^verbatim>\<open>int\<close>: both keep the low 32 bits.
\<close>

definition C_uint :: "go_int \<Rightarrow> nat" where
  "C_uint x = unat (ucast x :: 32 word)"

definition C_int :: "go_int \<Rightarrow> int" where
  "C_int x = sint (ucast x :: 32 word)"

text \<open>
  \<^verbatim>\<open>type FixMode int\<close> with the nine constants \<^verbatim>\<open>GrowBBox FixMode = iota\<close> to
  \<^verbatim>\<open>Respect\<close>.
\<close>

type_synonym FixMode = int

definition GrowBBox :: FixMode where "GrowBBox = 0"
definition GrowCanvas :: FixMode where "GrowCanvas = 1"
definition ShrinkBBox :: FixMode where "ShrinkBBox = 2"
definition ShrinkCanvas :: FixMode where "ShrinkCanvas = 3"
definition AdjustBBoxWidth :: FixMode where "AdjustBBoxWidth = 4"
definition AdjustBBoxHeight :: FixMode where "AdjustBBoxHeight = 5"
definition AdjustCanvasWidth :: FixMode where "AdjustCanvasWidth = 6"
definition AdjustCanvasHeight :: FixMode where "AdjustCanvasHeight = 7"

text \<open>
  Modelled from the spec: the reconciliation of the extent's aspect ratio with the canvas's,
  which the engine applies "at zoom/resize time" (section 4.4); its code is not part of the
  sources at hand. The variants follow section 4.4 and the doc comments of the constants in
  \<^verbatim>\<open>mapnik.go\<close>: grow-bbox grows the width or the height of the extent to fill the map size,
  shrink-bbox shrinks one of them, adjust-bbox-width and adjust-bbox-height change that side of
  the extent and leave the map size; the four canvas variants change the width or the height
  of the map and leave the extent; respect does nothing. An extent is widened or narrowed
  about its centre, and a canvas side is rounded to the nearest pixel. Nothing is done for an
  empty extent or canvas (there is no ratio) or when the two ratios agree already, which
  \<open>same_aspect\<close> says without a division.
\<close>

definition set_extent_width :: "real \<Rightarrow> real \<times> real \<times> real \<times> real \<Rightarrow> real \<times> real \<times> real \<times> real" where
  "set_extent_width ew box =
     (case box of (minx, miny, maxx, maxy) \<Rightarrow>
        ((minx + maxx) / 2 - ew / 2, miny, (minx + maxx) / 2 + ew / 2, maxy))"

definition set_extent_height :: "real \<Rightarrow> real \<times> real \<times> real \<times> real \<Rightarrow> real \<times> real \<times> real \<times> real" where
  "set_extent_height eh box =
     (case box of (minx, miny, maxx, maxy) \<Rightarrow>
        (minx, (miny + maxy) / 2 - eh / 2, maxx, (miny + maxy) / 2 + eh / 2))"

definition same_aspect :: "nat \<Rightarrow> nat \<Rightarrow> real \<times> real \<times> real \<times> real \<Rightarrow> bool" where
  "same_aspect w h box =
     (case box of (minx, miny, maxx, maxy) \<Rightarrow> real w * (maxy - miny) = real h * (maxx - minx))"

definition round_pixels :: "real \<Rightarrow> nat" where
  "round_pixels x = nat \<lfloor>x + 1 / 2\<rfloor>"

definition fixed_extent ::
  "FixMode \<Rightarrow> nat \<Rightarrow> nat \<Rightarrow> real \<times> real \<times> real \<times> real \<Rightarrow> real \<times> real \<times> real \<times> real" where
  "fixed_extent mode w h box =
     (case box of (minx, miny, maxx, maxy) \<Rightarrow>
        let ew = maxx - minx; eh = maxy - miny
        in if ew \<le> 0 \<or> eh \<le> 0 \<or> w = 0 \<or> h = 0 \<or> same_aspect w h box then box
           else if mode = GrowBBox then
             (if ew / eh > real w / real h then set_extent_height (ew * real h / real w) box
              else set_extent_width (eh * real w / real h) box)
           else if mode = ShrinkBBox then
             (if ew / eh < real w / real h then set_extent_height (ew * real h / real w) box
              else set_extent_width (eh * real w / real h) box)
           else if mode = AdjustBBoxWidth then set_extent_width (eh * real w / real h) box
           else if mode = AdjustBBoxHeight then set_extent_height (ew * real h / real w) box
           else box)"

definition fixed_canvas ::
  "FixMode \<Rightarrow> nat \<Rightarrow> nat \<Rightarrow> real \<times> real \<times> real \<times> real \<Rightarrow> nat \<times> nat" where
  "fixed_canvas mode w h box =
     (case box of (minx, miny, maxx, maxy) \<Rightarrow>
        let ew = maxx - minx; eh = maxy - miny
        in if ew \<le> 0 \<or> eh \<le> 0 \<or> w = 0 \<or> h = 0 \<or> same_aspect w h box then (w, h)
           else if mode = GrowCanvas then
             (if ew / eh > real w / real h then (round_pixels (real h * ew / eh), h)
              else (w, round_pixels (real w * eh / ew)))
           else if mode = ShrinkCanvas then
             (if ew / eh > real w / real h then (w, round_pixels (real w * eh / ew))
              else (round_pixels (real h * ew / eh), h))
           else if mode = AdjustCanvasWidth then (round_pixels (real h * ew / eh), h)
           else if mode = AdjustCanvasHeight then (w, round_pixels (real w * eh / ew))
           else (w, h))"

definition fix_aspect_ratio :: "mapnik_map_t \<Rightarrow> mapnik_map_t" where
  "fix_aspect_ratio nm =
     (let mode = map_aspect_fix_mode nm; w = map_width nm; h = map_height nm;
          box = map_extent nm
      in nm\<lparr>map_width := fst (fixed_canvas mode w h box),
            map_height := snd (fixed_canvas mode w h box),
            map_extent := fixed_extent mode w h box\<rparr>)"

text \<open>
  Modelled from the spec:
  \<^verbatim>\<open>void mapnik_map_resize(mapnik_map_t *, unsigned int width, unsigned int height)\<close>, declared
  in the header only. Section 4.3: resize "updates canvas pixel dimensions"; section 4.4: the
  aspect-fix policy is "applied at zoom/resize time" (and \<^verbatim>\<open>mapnik.go\<close> asks to set the
  mode "before Resize and ZoomAll/ZoomTo"). The SRS string is not touched.
\<close>

definition mapnik_map_resize :: "mapnik_map_t \<Rightarrow> nat \<Rightarrow> nat \<Rightarrow> mapnik_map_t" where
  "mapnik_map_resize nm w h = fix_aspect_ratio (nm\<lparr>map_width := w, map_height := h\<rparr>)"






text \<open>\<^verbatim>\<open>func (m *Map) Resize(width, height int)\<close>\<close>

definition Resize :: "go_int \<Rightarrow> go_int \<Rightarrow> Map \<Rightarrow> Map" where
  "Resize w h mp =
     mp\<lparr>m_handle := mapnik_map_resize (m_handle mp) (C_uint w) (C_uint h),
        width := w, height := h\<rparr>"






section \<open>Rendering and encoding\<close>

text \<open>
  Go's \<^verbatim>\<open>[]byte\<close> is a list of 8-bit words. \<^verbatim>\<open>float64\<close> values are only compared with
  0.0 and passed on by the wrapper; they are modelled as reals.
\<close>

type_synonym bytes = "8 word list"

record RenderOpts =
  Scale :: real
  ScaleFactor :: real
  Format :: string

text \<open>
  The rendering engine itself is outside the wrapper. What the wrapper needs of it is taken
  as a parameter, a record of four functions over the engine's image type \<open>'img\<close>:
  the rasterizer (the error text of the map, or an image), the raw pixel buffer of an image,
  the construction of an image from a raw buffer with a width and a height (\<open>None\<close> for the
  null pointer), and the codec registry, which gives for a format string the diagnostic text
  of an unrecognized format or the encoder.
\<close>

record 'img engine =
  rasterize :: "mapnik_map_t \<Rightarrow> real \<Rightarrow> real \<Rightarrow> string + 'img"
  image_to_raw :: "'img \<Rightarrow> bytes"
  image_from_raw :: "bytes \<Rightarrow> int \<Rightarrow> int \<Rightarrow> 'img option"
  codec :: "string \<Rightarrow> string + ('img \<Rightarrow> bytes)"

text \<open>
  Modelled from the spec:
  \<^verbatim>\<open>mapnik_image_t *mapnik_map_render_to_image(mapnik_map_t *, double scale, double scale_factor)\<close>,
  declared in the header only: the rasterization of the current map state, or the null
  pointer with the diagnostic text left in the map's error slot (\<open>Inl\<close>).
\<close>

definition mapnik_map_render_to_image ::
  "'img engine \<Rightarrow> mapnik_map_t \<Rightarrow> real \<Rightarrow> real \<Rightarrow> string + 'img" where
  "mapnik_map_render_to_image E nm scale scale_factor = rasterize E nm scale scale_factor"

text \<open>
  Modelled from the spec: \<^verbatim>\<open>mapnik_image_to_raw\<close>, \<^verbatim>\<open>mapnik_image_from_raw\<close> and
  \<^verbatim>\<open>mapnik_image_to_blob\<close>, declared in the header only. "An unrecognized format string
  fails with a FormatError and produces no output": the blob is the null pointer and the
  diagnostic text is left in the image's error slot (\<open>Inl\<close>).
\<close>

definition mapnik_image_to_raw :: "'img engine \<Rightarrow> 'img \<Rightarrow> bytes" where
  "mapnik_image_to_raw E i = image_to_raw E i"

definition mapnik_image_from_raw :: "'img engine \<Rightarrow> bytes \<Rightarrow> int \<Rightarrow> int \<Rightarrow> 'img option" where
  "mapnik_image_from_raw E raw w h = image_from_raw E raw w h"

definition mapnik_image_to_blob :: "'img engine \<Rightarrow> 'img \<Rightarrow> string \<Rightarrow> string + bytes" where
  "mapnik_image_to_blob E i format =
     (case codec E format of Inl err \<Rightarrow> Inl err | Inr enc \<Rightarrow> Inr (enc i))"

text \<open>
  Modelled from the spec: \<^verbatim>\<open>int mapnik_map_render_to_file(mapnik_map_t *, const char *filepath,
  double scale, double scale_factor, const char *format)\<close>, declared in the header only.
  Section 4.6: the entry points "rasterize the same map state identically (pixel-exact) for
  the same options", and an unrecognized format "must not leave a partial file on the
  render-to-file path". The file system is a map from paths to contents; the result is the
  status (0 for success), the diagnostic text left in the map's error slot, and the file
  system after the call.
\<close>

type_synonym filesystem = "string \<rightharpoonup> bytes"

definition mapnik_map_render_to_file ::
  "'img engine \<Rightarrow> mapnik_map_t \<Rightarrow> string \<Rightarrow> real \<Rightarrow> real \<Rightarrow> string \<Rightarrow> filesystem \<Rightarrow>
     int \<times> string \<times> filesystem" where
  "mapnik_map_render_to_file E nm filepath scale scale_factor format fs =
     (case rasterize E nm scale scale_factor of
        Inl err \<Rightarrow> (- 1, err, fs)
      | Inr i \<Rightarrow>
          (case codec E format of
             Inl err \<Rightarrow> (- 1, err, fs)
           | Inr enc \<Rightarrow> (0, [], fs(filepath \<mapsto> enc i))))"

text \<open>
  \<^verbatim>\<open>func (m *Map) Render(opts RenderOpts) ([]byte, error)\<close>. The two results are a pair: the
  slice (\<open>None\<close> for \<^verbatim>\<open>nil\<close>) and the error (\<open>None\<close> for \<^verbatim>\<open>nil\<close>, else its message).
  The buffers the engine returns are taken to be shorter than \<open>2 ^ 31\<close> bytes, so that the
  length \<^verbatim>\<open>C.GoBytes\<close> receives as a \<^verbatim>\<open>C.int\<close> is the length of the buffer.
\<close>

definition Render :: "'img engine \<Rightarrow> RenderOpts \<Rightarrow> Map \<Rightarrow> bytes option \<times> string option" where
  "Render E opts mp =
     (let scaleFactor = (if ScaleFactor opts = 0 then 1 else ScaleFactor opts)
      in case mapnik_map_render_to_image E (m_handle mp) (Scale opts) scaleFactor of
           Inl err \<Rightarrow> (None, Some (''mapnik: '' @ err))
         | Inr i \<Rightarrow>
             (if Format opts = ''raw'' then (Some (mapnik_image_to_raw E i), None)
              else (let format = (if Format opts \<noteq> [] then Format opts else ''png256'')
                    in (case mapnik_image_to_blob E i format of
                          Inl err \<Rightarrow> (None, Some (''mapnik: '' @ err))
                        | Inr b \<Rightarrow> (Some b, None)))))"

text \<open>
  Go's \<^verbatim>\<open>image.Rectangle\<close> and \<^verbatim>\<open>image.Rect\<close> (which orders the corners), and the images
  \<^verbatim>\<open>Encode\<close> tells apart in its type switch: \<^verbatim>\<open>*image.NRGBA\<close>, \<^verbatim>\<open>*image.RGBA\<close>, each
  with \<^verbatim>\<open>Pix\<close>, \<^verbatim>\<open>Stride\<close> and \<^verbatim>\<open>Rect\<close>, and any other \<^verbatim>\<open>image.Image\<close>.
\<close>

record Rectangle =
  MinX :: go_int
  MinY :: go_int
  MaxX :: go_int
  MaxY :: go_int

definition Rect :: "go_int \<Rightarrow> go_int \<Rightarrow> go_int \<Rightarrow> go_int \<Rightarrow> Rectangle" where
  "Rect x0 y0 x1 y1 =
     \<lparr>MinX = (if sint x0 > sint x1 then x1 else x0), MinY = (if sint y0 > sint y1 then y1 else y0),
      MaxX = (if sint x0 > sint x1 then x0 else x1), MaxY = (if sint y0 > sint y1 then y0 else y1)\<rparr>"

definition Dx :: "Rectangle \<Rightarrow> go_int" where
  "Dx r = MaxX r - MinX r"

definition Dy :: "Rectangle \<Rightarrow> go_int" where
  "Dy r = MaxY r - MinY r"

datatype Image = NRGBA bytes go_int Rectangle | RGBA bytes go_int Rectangle | OtherImage

text \<open>
  \<^verbatim>\<open>func (m *Map) RenderImage(opts RenderOpts) (*image.NRGBA, error)\<close>. The stride
  \<^verbatim>\<open>int(m.width * 4)\<close> is a product of Go \<^verbatim>\<open>int\<close>s and wraps.
\<close>

definition RenderImage :: "'img engine \<Rightarrow> RenderOpts \<Rightarrow> Map \<Rightarrow> Image option \<times> string option" where
  "RenderImage E opts mp =
     (let scaleFactor = (if ScaleFactor opts = 0 then 1 else ScaleFactor opts)
      in case mapnik_map_render_to_image E (m_handle mp) (Scale opts) scaleFactor of
           Inl err \<Rightarrow> (None, Some (''mapnik: '' @ err))
         | Inr i \<Rightarrow>
             (Some (NRGBA (mapnik_image_to_raw E i) (width mp * 4)
                      (Rect 0 0 (width mp) (height mp))), None))"

text \<open>
  \<^verbatim>\<open>C.CString\<close> makes a C string of a Go string: what follows the first NUL byte is not
  part of it. The path of \<^verbatim>\<open>RenderToFile\<close> is the key of the file written, so it is cut
  there. The format strings go to the engine's codec registry, a parameter, as they are: an
  engine that reads C strings takes no notice of what follows a NUL byte.
\<close>

definition C_CString :: "string \<Rightarrow> string" where
  "C_CString s = takeWhile (\<lambda>c. c \<noteq> CHR 0x00) s"

text \<open>
  \<^verbatim>\<open>func (m *Map) RenderToFile(opts RenderOpts, path string) error\<close>: the error and the file
  system after the call.
\<close>

definition RenderToFile ::
  "'img engine \<Rightarrow> RenderOpts \<Rightarrow> string \<Rightarrow> Map \<Rightarrow> filesystem \<Rightarrow> string option \<times> filesystem" where
  "RenderToFile E opts path mp fs =
     (let scaleFactor = (if ScaleFactor opts = 0 then 1 else ScaleFactor opts);
          format = (if Format opts \<noteq> [] then Format opts else ''png256'')
      in case mapnik_map_render_to_file E (m_handle mp) (C_CString path) (Scale opts) scaleFactor
                format fs of
           (status, err, fs') \<Rightarrow>
             if status \<noteq> 0 then (Some (''mapnik: '' @ err), fs') else (None, fs'))"

text \<open>
  \<^verbatim>\<open>func Encode(img image.Image, format string) ([]byte, error)\<close>. Both cases of the type
  switch pass \<^verbatim>\<open>&img.Pix[0]\<close> with the width and the height of the bounds to
  \<^verbatim>\<open>mapnik_image_from_raw\<close>; \<^verbatim>\<open>img.Pix[0]\<close> panics on an empty \<^verbatim>\<open>Pix\<close>. No case
  matches another image, and \<open>i\<close> stays \<^verbatim>\<open>nil\<close>. (A nil pointer of one of the two
  types is not modelled.)

  The engine receives a bare pointer and builds a width by height image of 4-byte pixels
  from it; the model hands it the slice. That is what the engine reads when the slice holds
  the \<open>4 * width * height\<close> bytes, which \<open>buffer_covers\<close> says; beyond the slice the C code
  would read memory the model knows nothing of.
\<close>

definition buffer_covers :: "bytes \<Rightarrow> Rectangle \<Rightarrow> bool" where
  "buffer_covers pix r =
     (0 \<le> C_int (Dx r) \<and> 0 \<le> C_int (Dy r) \<and>
      4 * C_int (Dx r) * C_int (Dy r) \<le> int (length pix))"

definition Encode_from_raw :: "'img engine \<Rightarrow> Image \<Rightarrow> go_panic + 'img option" where
  "Encode_from_raw E img =
     (case img of
        NRGBA pix stride r \<Rightarrow>
          if pix = [] then Inl IndexOutOfRange
          else Inr (mapnik_image_from_raw E pix (C_int (Dx r)) (C_int (Dy r)))
      | RGBA pix stride r \<Rightarrow>
          if pix = [] then Inl IndexOutOfRange
          else Inr (mapnik_image_from_raw E pix (C_int (Dx r)) (C_int (Dy r)))
      | OtherImage \<Rightarrow> Inr None)"

definition Encode ::
  "'img engine \<Rightarrow> Image \<Rightarrow> string \<Rightarrow> go_panic + (bytes option \<times> string option)" where
  "Encode E img format =
     (case Encode_from_raw E img of
        Inl p \<Rightarrow> Inl p
      | Inr None \<Rightarrow> Inr (None, Some ''unable to create image from raw'')
      | Inr (Some i) \<Rightarrow>
          (case mapnik_image_to_blob E i format of
             Inl err \<Rightarrow> Inr (None, Some (''mapnik: '' @ err))
           | Inr b \<Rightarrow> Inr (Some b, None)))"

text \<open>
  The alpha-premultiplied form of a non-premultiplied pixel, as Go's \<^verbatim>\<open>image/color\<close>
  computes it (\<^verbatim>\<open>color.NRGBA.RGBA\<close> followed by \<^verbatim>\<open>color.RGBAModel\<close>): each colour
  channel \<open>c\<close> becomes \<open>(c * 257 * a div 255) div 256\<close>. \<open>premultiply\<close> does this to a
  buffer of 4-byte pixels; it states what "the RGBA image representing the same colours as an
  NRGBA image" is.
\<close>

definition premultiply_channel :: "8 word \<Rightarrow> 8 word \<Rightarrow> 8 word" where
  "premultiply_channel c a = of_nat ((unat c * 257 * unat a div 255) div 256)"

fun premultiply :: "bytes \<Rightarrow> bytes" where
  "premultiply (r # g # b # a # rest) =
     premultiply_channel r a # premultiply_channel g a # premultiply_channel b a # a #
       premultiply rest"
| "premultiply rest = rest"

section \<open>Auxiliary definitions for the proofs\<close>

text \<open>
  The bodies of the two loops that write flags, as functions of the index: the loops are folds
  of these steps over the indices \<open>[0..<n]\<close>. \<open>select_call\<close> is the list of native
  writes step \<open>j\<close> of \<^verbatim>\<open>SelectLayers\<close> makes (one or none) for the layer names \<open>ns\<close>.
\<close>

definition reset_step :: "bool list \<Rightarrow> nat \<Rightarrow> mapnik_map_t \<Rightarrow> mapnik_map_t" where
  "reset_step st j nm =
     (if st ! j then mapnik_map_layer_set_active nm j 1 else mapnik_map_layer_set_active nm j 0)"

definition select_step :: "(string \<Rightarrow> Status) \<Rightarrow> nat \<Rightarrow> mapnik_map_t \<Rightarrow> mapnik_map_t" where
  "select_step selector j nm =
     (let s = selector (mapnik_map_layer_name nm j)
      in if s = Include then mapnik_map_layer_set_active nm j 1
         else if s = Exclude then mapnik_map_layer_set_active nm j 0
         else nm)"

definition select_call :: "(string \<Rightarrow> Status) \<Rightarrow> string list \<Rightarrow> nat \<Rightarrow> (nat \<times> int) list" where
  "select_call selector ns j =
     (if selector (ns ! j) = Include then [(j, 1)]
      else if selector (ns ! j) = Exclude then [(j, 0)] else [])"

text \<open>
  Maps to run the operations on: \<^verbatim>\<open>New()\<close> gives an 800 by 600 map without layers and
  with a nil \<^verbatim>\<open>layerStatus\<close>; \<open>test_map\<close> has the three active layers and
  \<open>testSelector\<close> is the selector of \<^verbatim>\<open>TestLayerStatus\<close>; \<open>test_map_v2\<close> has a fourth
  layer that is switched off, as the test expects of Mapnik 2. \<open>map_A\<close> has the single
  active layer \<^verbatim>\<open>layerA\<close>; \<open>grown_map\<close> is \<open>map_A\<close> after a selection that excludes every
  layer and the addition of a second layer, so its snapshot is shorter than its layer list.
\<close>

definition new_map :: Map where
  "new_map =
     \<lparr>m_handle = \<lparr>map_width = 800, map_height = 600,
                  map_srs = ''+proj=longlat +ellps=WGS84 +datum=WGS84 +no_defs'',
                  map_extent = (0, 0, 0, 0), map_aspect_fix_mode = GrowBBox,
                  map_layers = [], set_active_calls = []\<rparr>,
      width = 800, height = 600, layerStatus = None\<rparr>"

definition test_layer :: "string \<Rightarrow> bool \<Rightarrow> mapnik_layer_t" where
  "test_layer name act = \<lparr>layer_name = name, layer_srs = ''+init=epsg:4326'', layer_active = act\<rparr>"

definition test_map :: Map where
  "test_map =
     AddLayer (AddLayer (AddLayer new_map (test_layer ''layerA'' True))
       (test_layer ''layerB'' True)) (test_layer ''layerC'' True)"

definition testSelector :: "string \<Rightarrow> Status" where
  "testSelector layer =
     (if layer = ''layerA'' then Exclude else if layer = ''layerB'' then Include else Default)"

definition keep_all :: "string \<Rightarrow> Status" where
  "keep_all layer = Default"

definition exclude_all :: "string \<Rightarrow> Status" where
  "exclude_all layer = Exclude"

definition test_map_v2 :: Map where
  "test_map_v2 = AddLayer test_map (test_layer ''layerD'' False)"

definition map_A :: Map where
  "map_A = AddLayer new_map (test_layer ''layerA'' True)"

definition grown_map :: Map where
  "grown_map = AddLayer (SelectLayers exclude_all map_A) (test_layer ''layerB'' True)"

text \<open>
  An engine to run the wrapper on. Its images are a pixel buffer with a width and a height;
  the rasterizer paints a transparent canvas of the map's size; the codec registry knows four
  format strings, and each encoder writes one tag byte before the pixels.
\<close>

definition test_codec :: "string \<Rightarrow> string + (bytes \<times> nat \<times> nat \<Rightarrow> bytes)" where
  "test_codec format =
     (if format \<in> set [''png'', ''png24'', ''png256'', ''jpeg'']
      then Inr (\<lambda>(pix, w, h). of_nat (length format) # pix)
      else Inl (''unknown file type: '' @ format))"

definition test_engine :: "(bytes \<times> nat \<times> nat) engine" where
  "test_engine =
     \<lparr>rasterize = (\<lambda>nm scale scale_factor.
          Inr (replicate (4 * map_width nm * map_height nm) 0, map_width nm, map_height nm)),
      image_to_raw = (\<lambda>(pix, w, h). pix),
      image_from_raw = (\<lambda>raw w h.
          if 0 \<le> w \<and> 0 \<le> h then Some (take (nat (4 * w * h)) raw, nat w, nat h) else None),
      codec = test_codec\<rparr>"

definition small_map :: Map where
  "small_map = Resize 2 1 new_map"



definition opts_png24 :: RenderOpts where
  "opts_png24 = \<lparr>Scale = 0, ScaleFactor = 0, Format = ''png24''\<rparr>"

definition opts_raw :: RenderOpts where
  "opts_raw = \<lparr>Scale = 0, ScaleFactor = 0, Format = ''raw''\<rparr>"

definition opts_invalid :: RenderOpts where
  "opts_invalid = \<lparr>Scale = 0, ScaleFactor = 0, Format = ''invalidformat''\<rparr>"

section \<open>The native calls and the loops\<close>

declare currentLayerStatus_loop.simps [simp del]
declare resetLayerStatus_loop.simps [simp del]
declare SelectLayers_loop.simps [simp del]

lemma set_active_length [simp]:
  "length (map_layers (mapnik_map_layer_set_active nm i v)) = length (map_layers nm)"
  by (simp add: mapnik_map_layer_set_active_def)

lemma set_active_names [simp]: "names (mapnik_map_layer_set_active nm i v) = names nm"
  by (auto simp: mapnik_map_layer_set_active_def names_def map_update list_eq_iff_nth_eq nth_list_update)

lemma set_active_flags [simp]:
  "flags (mapnik_map_layer_set_active nm i v) = (flags nm)[i := (v \<noteq> 0)]"
  by (auto simp: mapnik_map_layer_set_active_def flags_def map_update list_update_beyond)

lemma set_active_calls_app [simp]:
  "set_active_calls (mapnik_map_layer_set_active nm i v) = set_active_calls nm @ [(i, v)]"
  by (simp add: mapnik_map_layer_set_active_def)

lemma set_active_frame [simp]:
  "map_width (mapnik_map_layer_set_active nm i v) = map_width nm"
  "map_height (mapnik_map_layer_set_active nm i v) = map_height nm"
  "map_srs (mapnik_map_layer_set_active nm i v) = map_srs nm"
  "map_extent (mapnik_map_layer_set_active nm i v) = map_extent nm"
  by (simp_all add: mapnik_map_layer_set_active_def)

lemma length_flags [simp]: "length (flags nm) = length (map_layers nm)"
  by (simp add: flags_def)

lemma length_names [simp]: "length (names nm) = length (map_layers nm)"
  by (simp add: names_def)

lemma layer_name_names:
  "i < length (map_layers nm) \<Longrightarrow> mapnik_map_layer_name nm i = names nm ! i"
  by (simp add: mapnik_map_layer_name_def names_def)

lemma is_active_flags:
  "i < length (map_layers nm) \<Longrightarrow> (mapnik_map_layer_is_active nm i = 1) = flags nm ! i"
  by (simp add: mapnik_map_layer_is_active_def flags_def)

subsection \<open>currentLayerStatus\<close>

lemma cls_loop_length [simp]:
  "length (currentLayerStatus_loop nm n i active) = length active"
proof (induction nm n i active rule: currentLayerStatus_loop.induct)
  case (1 nm n i active)
  then show ?case
    by (subst currentLayerStatus_loop.simps) simp
qed

lemma cls_loop_nth:
  "j < length active \<Longrightarrow>
   currentLayerStatus_loop nm n i active ! j =
     (if i \<le> j \<and> j < n \<and> mapnik_map_layer_is_active nm j = 1 then True else active ! j)"
proof (induction nm n i active rule: currentLayerStatus_loop.induct)
  case (1 nm n i active)
  show ?case
  proof (cases "i < n")
    case True
    have "currentLayerStatus_loop nm n i active ! j =
          currentLayerStatus_loop nm n (i + 1)
            (if mapnik_map_layer_is_active nm i = 1 then active[i := True] else active) ! j"
      using True by (subst currentLayerStatus_loop.simps) simp
    also have "\<dots> =
          (if i + 1 \<le> j \<and> j < n \<and> mapnik_map_layer_is_active nm j = 1 then True
           else (if mapnik_map_layer_is_active nm i = 1 then active[i := True] else active) ! j)"
      using "1.prems" by (intro "1.IH" [OF True]) simp
    also have "\<dots> =
          (if i \<le> j \<and> j < n \<and> mapnik_map_layer_is_active nm j = 1 then True else active ! j)"
      using "1.prems" True by (cases "j = i") (auto simp: nth_list_update)
    finally show ?thesis .
  next
    case False
    then show ?thesis by (subst currentLayerStatus_loop.simps) auto
  qed
qed

lemma currentLayerStatus_flags: "currentLayerStatus mp = flags (m_handle mp)"
  by (auto simp: currentLayerStatus_def CountLayers_def mapnik_map_layer_count_def Let_def
      list_eq_iff_nth_eq cls_loop_nth is_active_flags)

subsection \<open>resetLayerStatus\<close>

lemma reset_loop_fold:
  "n \<le> length st \<Longrightarrow>
   resetLayerStatus_loop st n i nm = Inr (fold (reset_step st) [i..<n] nm)"
proof (induction st n i nm rule: resetLayerStatus_loop.induct)
  case (1 st n i nm)
  show ?case
  proof (cases "i < n")
    case True
    with "1.prems" have il: "i < length st" by simp
    have step: "(if st ! i then mapnik_map_layer_set_active nm i 1
                 else mapnik_map_layer_set_active nm i 0) = reset_step st i nm"
      by (simp add: reset_step_def)
    show ?thesis
      using "1.IH" [OF True il "1.prems"] True il
      by (subst resetLayerStatus_loop.simps) (simp add: upt_conv_Cons step)
  next
    case False
    then show ?thesis by (subst resetLayerStatus_loop.simps) simp
  qed
qed

lemma reset_fold_length [simp]:
  "length (map_layers (fold (reset_step st) js nm)) = length (map_layers nm)"
  by (induction js arbitrary: nm) (simp_all add: reset_step_def)

lemma reset_fold_names [simp]: "names (fold (reset_step st) js nm) = names nm"
  by (induction js arbitrary: nm) (simp_all add: reset_step_def)

lemma reset_fold_calls:
  "set_active_calls (fold (reset_step st) js nm) =
     set_active_calls nm @ map (\<lambda>j. (j, if st ! j then 1 else 0)) js"
  by (induction js arbitrary: nm) (simp_all add: reset_step_def)

lemma reset_fold_frame [simp]:
  "map_width (fold (reset_step st) js nm) = map_width nm"
  "map_height (fold (reset_step st) js nm) = map_height nm"
  "map_srs (fold (reset_step st) js nm) = map_srs nm"
  "map_extent (fold (reset_step st) js nm) = map_extent nm"
  by (induction js arbitrary: nm; simp add: reset_step_def)+

lemma reset_fold_flags_nth:
  "j < length (map_layers nm) \<Longrightarrow>
   flags (fold (reset_step st) js nm) ! j = (if j \<in> set js then st ! j else flags nm ! j)"
  by (induction js arbitrary: nm) (auto simp: reset_step_def nth_list_update)

subsection \<open>SelectLayers\<close>

lemma select_loop_fold:
  "SelectLayers_loop selector n i nm = fold (select_step selector) [i..<n] nm"
proof (induction selector n i nm rule: SelectLayers_loop.induct)
  case (1 selector n i nm)
  show ?case
  proof (cases "i < n")
    case True
    have step: "(let layerName = mapnik_map_layer_name nm i; s = selector layerName
                 in if s = Include then mapnik_map_layer_set_active nm i 1
                    else if s = Exclude then mapnik_map_layer_set_active nm i 0
                    else nm) = select_step selector i nm"
      by (simp add: select_step_def Let_def)
    show ?thesis
      using "1.IH" [OF True] True
      by (subst SelectLayers_loop.simps) (simp only: step upt_conv_Cons fold_simps if_True Suc_eq_plus1)
  next
    case False
    then show ?thesis by (subst SelectLayers_loop.simps) simp
  qed
qed

lemma select_step_length [simp]:
  "length (map_layers (select_step selector j nm)) = length (map_layers nm)"
  by (simp add: select_step_def Let_def)

lemma select_step_names [simp]: "names (select_step selector j nm) = names nm"
  by (simp add: select_step_def Let_def)

lemma select_fold_length [simp]:
  "length (map_layers (fold (select_step selector) js nm)) = length (map_layers nm)"
  by (induction js arbitrary: nm) simp_all

lemma select_fold_names [simp]: "names (fold (select_step selector) js nm) = names nm"
  by (induction js arbitrary: nm) simp_all

lemma select_fold_frame [simp]:
  "map_width (fold (select_step selector) js nm) = map_width nm"
  "map_height (fold (select_step selector) js nm) = map_height nm"
  "map_srs (fold (select_step selector) js nm) = map_srs nm"
  "map_extent (fold (select_step selector) js nm) = map_extent nm"
  by (induction js arbitrary: nm; simp add: select_step_def Let_def)+

lemma select_step_flags_nth:
  "j < length (map_layers nm) \<Longrightarrow> k < length (map_layers nm) \<Longrightarrow>
   flags (select_step selector k nm) ! j =
     (if j = k \<and> selector (names nm ! j) = Include then True
      else if j = k \<and> selector (names nm ! j) = Exclude then False
      else flags nm ! j)"
  by (auto simp: select_step_def Let_def layer_name_names nth_list_update Include_def Exclude_def)

lemma select_fold_flags_nth:
  "j < length (map_layers nm) \<Longrightarrow> \<forall>k \<in> set js. k < length (map_layers nm) \<Longrightarrow>
   flags (fold (select_step selector) js nm) ! j =
     (if j \<in> set js \<and> selector (names nm ! j) = Include then True
      else if j \<in> set js \<and> selector (names nm ! j) = Exclude then False
      else flags nm ! j)"
proof (induction js arbitrary: nm)
  case Nil
  then show ?case by simp
next
  case (Cons k js)
  have "flags (fold (select_step selector) js (select_step selector k nm)) ! j =
     (if j \<in> set js \<and> selector (names (select_step selector k nm) ! j) = Include then True
      else if j \<in> set js \<and> selector (names (select_step selector k nm) ! j) = Exclude then False
      else flags (select_step selector k nm) ! j)"
    using Cons.prems by (intro Cons.IH) simp_all
  then show ?case
    using Cons.prems by (auto simp: select_step_flags_nth Include_def Exclude_def)
qed

lemma select_fold_calls:
  "\<forall>k \<in> set js. k < length (map_layers nm) \<Longrightarrow>
   set_active_calls (fold (select_step selector) js nm) =
     set_active_calls nm @ concat (map (select_call selector (names nm)) js)"
proof (induction js arbitrary: nm)
  case Nil
  then show ?case by simp
next
  case (Cons k js)
  have "set_active_calls (fold (select_step selector) js (select_step selector k nm)) =
     set_active_calls (select_step selector k nm) @
       concat (map (select_call selector (names (select_step selector k nm))) js)"
    using Cons.prems by (intro Cons.IH) simp
  moreover have "set_active_calls (select_step selector k nm) =
      set_active_calls nm @ select_call selector (names nm) k"
    using Cons.prems by (simp add: select_step_def select_call_def Let_def layer_name_names)
  ultimately show ?case by simp
qed

section \<open>The layer-activation state machine\<close>

lemma storeLayerStatus_layerStatus:
  "layerStatus (storeLayerStatus mp) =
     (if Saved mp then layerStatus mp else Some (flags (m_handle mp)))"
  by (simp add: storeLayerStatus_def Saved_def currentLayerStatus_flags)

lemma storeLayerStatus_handle [simp]: "m_handle (storeLayerStatus mp) = m_handle mp"
  by (simp add: storeLayerStatus_def)

lemma CountLayers_store [simp]: "CountLayers (storeLayerStatus mp) = CountLayers mp"
  by (simp add: CountLayers_def)

lemma CountLayers_length: "CountLayers mp = length (map_layers (m_handle mp))"
  by (simp add: CountLayers_def mapnik_map_layer_count_def)

lemma SelectLayers_handle:
  "m_handle (SelectLayers selector mp) =
     fold (select_step selector) [0..<CountLayers mp] (m_handle mp)"
  by (simp add: SelectLayers_def Let_def select_loop_fold)

lemma SelectLayers_layerStatus [simp]:
  "layerStatus (SelectLayers selector mp) = layerStatus (storeLayerStatus mp)"
  by (simp add: SelectLayers_def Let_def)

lemma SelectLayers_length [simp]:
  "length (map_layers (m_handle (SelectLayers selector mp))) = length (map_layers (m_handle mp))"
  by (simp add: SelectLayers_handle)

lemma CountLayers_select [simp]: "CountLayers (SelectLayers selector mp) = CountLayers mp"
  by (simp add: CountLayers_length)

lemma reset_refuses:
  "len (layerStatus mp) < CountLayers mp \<Longrightarrow> ResetLayers mp = Inr mp"
  by (simp add: ResetLayers_def resetLayerStatus_def Let_def)

lemma reset_unsaved: "\<not> Saved mp \<Longrightarrow> ResetLayers mp = Inr mp"
  by (simp add: ResetLayers_def resetLayerStatus_def Saved_def)

lemma reset_applies:
  assumes "Saved mp" and "CountLayers mp \<le> len (layerStatus mp)"
  shows "ResetLayers mp =
     Inr (mp\<lparr>m_handle := fold (reset_step (elems (layerStatus mp))) [0..<CountLayers mp] (m_handle mp),
             layerStatus := None\<rparr>)"
proof -
  from assms(2) have "CountLayers mp \<le> length (elems (layerStatus mp))"
    by (cases "layerStatus mp") simp_all
  then have "resetLayerStatus_loop (elems (layerStatus mp)) (CountLayers mp) 0 (m_handle mp) =
      Inr (fold (reset_step (elems (layerStatus mp))) [0..<CountLayers mp] (m_handle mp))"
    by (rule reset_loop_fold)
  with assms show ?thesis
    by (simp add: ResetLayers_def resetLayerStatus_def Saved_def Let_def)
qed

lemma reset_loop_panics:
  "i \<le> length st \<Longrightarrow> length st < n \<Longrightarrow> resetLayerStatus_loop st n i nm = Inl IndexOutOfRange"
proof (induction st n i nm rule: resetLayerStatus_loop.induct)
  case (1 st n i nm)
  show ?case
  proof (cases "i < length st")
    case True
    with "1.prems" have "i < n" by simp
    then show ?thesis
      using True "1.IH" [OF \<open>i < n\<close> True] "1.prems"
      by (subst resetLayerStatus_loop.simps) simp
  next
    case False
    with "1.prems" show ?thesis
      by (subst resetLayerStatus_loop.simps) simp
  qed
qed

lemma reset_fold_flags:
  "length (map_layers nm) \<le> length st \<Longrightarrow>
   flags (fold (reset_step st) [0..<length (map_layers nm)] nm) = take (length (map_layers nm)) st"
proof (rule nth_equalityI)
  assume "length (map_layers nm) \<le> length st"
  then show "length (flags (fold (reset_step st) [0..<length (map_layers nm)] nm)) =
      length (take (length (map_layers nm)) st)"
    by simp
next
  fix j
  assume "j < length (flags (fold (reset_step st) [0..<length (map_layers nm)] nm))"
  then have "j < length (map_layers nm)" by simp
  then show "flags (fold (reset_step st) [0..<length (map_layers nm)] nm) ! j =
      take (length (map_layers nm)) st ! j"
    by (simp add: reset_fold_flags_nth)
qed

text \<open>
  Claim C1, as amended. For every map with at least one layer that holds no snapshot (state
  Unsaved) and every selection policy, \<^verbatim>\<open>SelectLayers(policy)\<close> followed by
  \<^verbatim>\<open>ResetLayers()\<close> does not panic, restores exactly the active flags the layers had
  immediately before the \<^verbatim>\<open>SelectLayers\<close> call, keeps the layer names, and discards the
  snapshot: \<^verbatim>\<open>layerStatus\<close> is nil again and the machine is back in Unsaved.
\<close>

theorem select_then_reset_roundtrip:
  assumes "0 < CountLayers mp" and "\<not> Saved mp"
  shows "\<exists>mp'. ResetLayers (SelectLayers selector mp) = Inr mp' \<and>
           flags (m_handle mp') = flags (m_handle mp) \<and>
           names (m_handle mp') = names (m_handle mp) \<and>
           currentLayerStatus mp' = currentLayerStatus mp \<and>
           layerStatus mp' = None \<and> \<not> Saved mp'"
proof -
  let ?mp1 = "SelectLayers selector mp"
  let ?st = "flags (m_handle mp)"
  have ls: "layerStatus ?mp1 = Some ?st"
    using assms(2) by (simp add: storeLayerStatus_layerStatus)
  have n: "CountLayers ?mp1 = length ?st"
    by (simp add: CountLayers_length)
  have saved: "Saved ?mp1"
    using assms(1) ls by (simp add: Saved_def CountLayers_length)
  have le: "CountLayers ?mp1 \<le> len (layerStatus ?mp1)"
    using ls n by simp
  let ?mp' = "?mp1\<lparr>m_handle := fold (reset_step ?st) [0..<CountLayers ?mp1] (m_handle ?mp1),
                    layerStatus := None\<rparr>"
  have r: "ResetLayers ?mp1 = Inr ?mp'"
    using reset_applies [OF saved le] ls by simp
  have len1: "length (map_layers (m_handle ?mp1)) = length ?st"
    by (simp add: SelectLayers_handle)
  have f: "flags (m_handle ?mp') = ?st"
    using reset_fold_flags [of "m_handle ?mp1" ?st] by (simp add: CountLayers_length)
  have nm: "names (m_handle ?mp') = names (m_handle mp)"
    by (simp add: SelectLayers_handle)
  show ?thesis
    using r f nm by (simp add: currentLayerStatus_flags Saved_def)
qed

theorem select_then_reset_roundtrip_witness:
  "0 < CountLayers test_map \<and> \<not> Saved test_map \<and>
   (\<exists>mp'. ResetLayers (SelectLayers testSelector test_map) = Inr mp' \<and>
           flags (m_handle mp') = flags (m_handle test_map) \<and>
           names (m_handle mp') = names (m_handle test_map) \<and>
           currentLayerStatus mp' = currentLayerStatus test_map \<and>
           layerStatus mp' = None \<and> \<not> Saved mp')"
proof -
  have c: "0 < CountLayers test_map" by code_simp
  have u: "\<not> Saved test_map" by code_simp
  show ?thesis
    using c u select_then_reset_roundtrip [OF c u, of testSelector] by simp
qed

text \<open>
  Claim C1 as stated fails on a map that already holds a snapshot: after
  \<^verbatim>\<open>SelectLayers(exclude_all)\<close> on a map with the single active layer \<^verbatim>\<open>layerA\<close>, the
  layer is inactive and the snapshot \<open>[True]\<close> is held. A second \<^verbatim>\<open>SelectLayers\<close> (here
  with the policy that answers \<^verbatim>\<open>Default\<close> for every layer) keeps that snapshot, and
  \<^verbatim>\<open>ResetLayers\<close> then makes the layer active: not the flag it had immediately before the
  second \<^verbatim>\<open>SelectLayers\<close> call.
\<close>

theorem select_then_reset_saved_counterexample:
  "0 < CountLayers (SelectLayers exclude_all map_A) \<and>
   flags (m_handle (SelectLayers exclude_all map_A)) = [False] \<and>
   (case ResetLayers (SelectLayers keep_all (SelectLayers exclude_all map_A)) of
      Inl p \<Rightarrow> [] | Inr mp' \<Rightarrow> flags (m_handle mp')) = [True]"
  by code_simp

lemma select_fold_flags_upt:
  "j < length (map_layers nm) \<Longrightarrow>
   flags (fold (select_step selector) [0..<length (map_layers nm)] nm) ! j =
     (if selector (names nm ! j) = Include then True
      else if selector (names nm ! j) = Exclude then False
      else flags nm ! j)"
  by (simp add: select_fold_flags_nth)

lemma Saved_store: "Saved (storeLayerStatus mp) = (Saved mp \<or> 0 < CountLayers mp)"
  by (auto simp: storeLayerStatus_layerStatus Saved_def CountLayers_length)

text \<open>
  Claim C2, as amended. For every map and every selection policy, \<^verbatim>\<open>SelectLayers\<close> first
  stores a snapshot of the current per-layer active flags if none is held (a held snapshot is
  kept as it is); the layer count and the layer names stay; for every layer index the flag is
  active when the policy answers \<^verbatim>\<open>Include\<close> on the layer's name, inactive on
  \<^verbatim>\<open>Exclude\<close>, and unchanged otherwise; the native writes are made in ascending index
  order, one for each layer the policy includes or excludes. After the call a snapshot is held
  (state Saved) exactly when one was held before or the map has at least one layer.
\<close>

theorem SelectLayers_effect:
  "layerStatus (SelectLayers selector mp) =
     (if Saved mp then layerStatus mp else Some (flags (m_handle mp))) \<and>
   CountLayers (SelectLayers selector mp) = CountLayers mp \<and>
   names (m_handle (SelectLayers selector mp)) = names (m_handle mp) \<and>
   (\<forall>i < CountLayers mp.
      flags (m_handle (SelectLayers selector mp)) ! i =
        (if selector (names (m_handle mp) ! i) = Include then True
         else if selector (names (m_handle mp) ! i) = Exclude then False
         else flags (m_handle mp) ! i)) \<and>
   set_active_calls (m_handle (SelectLayers selector mp)) =
     set_active_calls (m_handle mp) @
       concat (map (select_call selector (names (m_handle mp))) [0..<CountLayers mp]) \<and>
   Saved (SelectLayers selector mp) = (Saved mp \<or> 0 < CountLayers mp)"
proof -
  have a: "layerStatus (SelectLayers selector mp) =
     (if Saved mp then layerStatus mp else Some (flags (m_handle mp)))"
    by (simp add: storeLayerStatus_layerStatus)
  have b: "names (m_handle (SelectLayers selector mp)) = names (m_handle mp)"
    by (simp add: SelectLayers_handle)
  have c: "\<forall>i < CountLayers mp.
      flags (m_handle (SelectLayers selector mp)) ! i =
        (if selector (names (m_handle mp) ! i) = Include then True
         else if selector (names (m_handle mp) ! i) = Exclude then False
         else flags (m_handle mp) ! i)"
    by (simp add: SelectLayers_handle CountLayers_length select_fold_flags_upt)
  have d: "set_active_calls (m_handle (SelectLayers selector mp)) =
     set_active_calls (m_handle mp) @
       concat (map (select_call selector (names (m_handle mp))) [0..<CountLayers mp])"
    by (simp add: SelectLayers_handle CountLayers_length select_fold_calls)
  have e: "Saved (SelectLayers selector mp) = (Saved mp \<or> 0 < CountLayers mp)"
    using Saved_store [of mp] by (simp add: Saved_def)
  show ?thesis
    using a b c d e by simp
qed

text \<open>
  The map and the selector of \<^verbatim>\<open>TestLayerStatus\<close> under Mapnik 2: three active layers and
  a fourth that is switched off; \<^verbatim>\<open>layerA\<close> is excluded, \<^verbatim>\<open>layerB\<close> included, the other
  two are left alone. The snapshot holds the inactive flag of the fourth layer.
\<close>

theorem SelectLayers_effect_witness:
  "layerStatus (SelectLayers testSelector test_map_v2) = Some [True, True, True, False] \<and>
   flags (m_handle (SelectLayers testSelector test_map_v2)) = [False, True, True, False] \<and>
   set_active_calls (m_handle (SelectLayers testSelector test_map_v2)) = [(0, 0), (1, 1)] \<and>
   Saved (SelectLayers testSelector test_map_v2)"
proof -
  have n: "CountLayers test_map_v2 = 4" by code_simp
  have s: "\<not> Saved test_map_v2" by code_simp
  have nm: "names (m_handle test_map_v2) = [''layerA'', ''layerB'', ''layerC'', ''layerD'']"
    by code_simp
  have fl: "flags (m_handle test_map_v2) = [True, True, True, False]" by code_simp
  have ca: "set_active_calls (m_handle test_map_v2) = []" by code_simp
  have sel: "testSelector ''layerA'' = Exclude" "testSelector ''layerB'' = Include"
    "testSelector ''layerC'' = Default" "testSelector ''layerD'' = Default"
    by (simp_all add: testSelector_def)
  have ne: "Exclude \<noteq> Include" "Default \<noteq> Include" "Default \<noteq> Exclude"
    by (simp_all add: Include_def Exclude_def Default_def)
  have up: "[0..<4] = [0, 1, 2, 3]" by code_simp
  note E = SelectLayers_effect [of testSelector test_map_v2]
  have a: "layerStatus (SelectLayers testSelector test_map_v2) = Some [True, True, True, False]"
    using E [THEN conjunct1] s fl by simp
  have len: "length (flags (m_handle (SelectLayers testSelector test_map_v2))) = 4"
    using n by (simp add: CountLayers_length)
  note Ec = E [THEN conjunct2, THEN conjunct2, THEN conjunct2, THEN conjunct1, rule_format]
  have f0: "flags (m_handle (SelectLayers testSelector test_map_v2)) ! 0 = False"
    using Ec [of 0] by (simp add: n nm fl sel ne)
  have f1: "flags (m_handle (SelectLayers testSelector test_map_v2)) ! 1 = True"
    using Ec [of 1] by (simp add: n nm fl sel ne)
  have f2: "flags (m_handle (SelectLayers testSelector test_map_v2)) ! 2 = True"
    using Ec [of 2] by (simp add: n nm fl sel ne)
  have f3: "flags (m_handle (SelectLayers testSelector test_map_v2)) ! 3 = False"
    using Ec [of 3] by (simp add: n nm fl sel ne)
  have f: "flags (m_handle (SelectLayers testSelector test_map_v2)) = [False, True, True, False]"
  proof (rule nth_equalityI)
    show "length (flags (m_handle (SelectLayers testSelector test_map_v2))) =
        length [False, True, True, False]"
      using len by simp
  next
    fix i assume "i < length (flags (m_handle (SelectLayers testSelector test_map_v2)))"
    then have "i < 4" using len by simp
    then have "i = 0 \<or> i = 1 \<or> i = 2 \<or> i = 3" by arith
    then show "flags (m_handle (SelectLayers testSelector test_map_v2)) ! i =
        [False, True, True, False] ! i"
      using f0 f1 f2 f3 by auto
  qed
  have g: "set_active_calls (m_handle (SelectLayers testSelector test_map_v2)) = [(0, 0), (1, 1)]"
    using E [THEN conjunct2, THEN conjunct2, THEN conjunct2, THEN conjunct2, THEN conjunct1]
    by (simp add: n nm ca up select_call_def sel ne)
  have e: "Saved (SelectLayers testSelector test_map_v2)"
    using E [THEN conjunct2, THEN conjunct2, THEN conjunct2, THEN conjunct2, THEN conjunct2]
    by (simp add: n)
  show ?thesis using a f g e by simp
qed

text \<open>
  Claim C2 as stated fails on a map without layers: the capture has length 0, which the
  guards of \<^verbatim>\<open>storeLayerStatus\<close> and \<^verbatim>\<open>resetLayerStatus\<close> read as "nothing stored",
  so the machine is not in Saved after \<^verbatim>\<open>SelectLayers\<close>.
\<close>

theorem SelectLayers_empty_map_counterexample:
  "CountLayers new_map = 0 \<and> \<not> Saved (SelectLayers keep_all new_map)"
  by code_simp




text \<open>
  Claim C4. For every map in the Saved state whose current layer count is strictly greater
  than the length of the stored snapshot, \<^verbatim>\<open>ResetLayers\<close> returns without a panic and
  leaves the native map as it was: no active flag has changed and the log of
  \<^verbatim>\<open>mapnik_map_layer_set_active\<close> calls has no new entry, so no flag was written at any
  index. Without the guard the loop would have read the snapshot past its end.
\<close>

theorem ResetLayers_refuses_no_write:
  assumes "Saved mp" and "len (layerStatus mp) < CountLayers mp"
  shows "(\<exists>mp'. ResetLayers mp = Inr mp' \<and> m_handle mp' = m_handle mp \<and>
            flags (m_handle mp') = flags (m_handle mp) \<and>
            set_active_calls (m_handle mp') = set_active_calls (m_handle mp)) \<and>
         resetLayerStatus_loop (elems (layerStatus mp)) (CountLayers mp) 0 (m_handle mp) =
           Inl IndexOutOfRange"
proof -
  have "length (elems (layerStatus mp)) < CountLayers mp"
    using assms(2) by (cases "layerStatus mp") simp_all
  then have "resetLayerStatus_loop (elems (layerStatus mp)) (CountLayers mp) 0 (m_handle mp) =
      Inl IndexOutOfRange"
    by (intro reset_loop_panics) simp_all
  then show ?thesis
    using reset_refuses [OF assms(2)] by simp
qed

text \<open>
  A map that holds a snapshot of length 1 and has gained a second layer since.
\<close>

theorem ResetLayers_refuses_no_write_witness:
  "Saved grown_map \<and> len (layerStatus grown_map) < CountLayers grown_map \<and>
   (\<exists>mp'. ResetLayers grown_map = Inr mp' \<and> m_handle mp' = m_handle grown_map \<and>
           flags (m_handle mp') = flags (m_handle grown_map) \<and>
           set_active_calls (m_handle mp') = set_active_calls (m_handle grown_map))"
proof -
  have a: "Saved grown_map" by code_simp
  have b: "len (layerStatus grown_map) < CountLayers grown_map" by code_simp
  show ?thesis
    using a b ResetLayers_refuses_no_write [OF a b] by simp
qed

lemma handle_foldl_AddLayer:
  "m_handle (foldl AddLayer mp ls) = (m_handle mp)\<lparr>map_layers := map_layers (m_handle mp) @ ls\<rparr>"
  by (induction ls arbitrary: mp) (simp_all add: AddLayer_def mapnik_map_add_layer_def)

lemma layerStatus_AddLayer [simp]: "layerStatus (AddLayer mp l) = layerStatus mp"
  by (simp add: AddLayer_def)

lemma layerStatus_foldl_AddLayer [simp]:
  "layerStatus (foldl AddLayer mp ls) = layerStatus mp"
  by (induction ls arbitrary: mp) (simp_all add: AddLayer_def)

text \<open>
  Claim C9. For every map without layers that holds no snapshot, \<^verbatim>\<open>storeLayerStatus\<close>
  leaves the machine in Unsaved (the capture has length 0); \<^verbatim>\<open>ResetLayers\<close> on such a
  map, before or after the capture, changes nothing; and once layers \<open>l # ls\<close> have been
  added, a later \<^verbatim>\<open>storeLayerStatus\<close> is not a no-op: it captures the flags of the added
  layers and the machine is in Saved.
\<close>

theorem storeLayerStatus_zero_layers:
  assumes "CountLayers mp = 0" and "\<not> Saved mp"
  shows "\<not> Saved (storeLayerStatus mp) \<and>
         ResetLayers (storeLayerStatus mp) = Inr (storeLayerStatus mp) \<and>
         ResetLayers mp = Inr mp \<and>
         layerStatus (storeLayerStatus (foldl AddLayer (storeLayerStatus mp) (l # ls))) =
           Some (map layer_active (l # ls)) \<and>
         storeLayerStatus (foldl AddLayer (storeLayerStatus mp) (l # ls)) \<noteq>
           foldl AddLayer (storeLayerStatus mp) (l # ls) \<and>
         Saved (storeLayerStatus (foldl AddLayer (storeLayerStatus mp) (l # ls)))"
proof -
  let ?mp1 = "storeLayerStatus mp"
  let ?mp2 = "foldl AddLayer ?mp1 (l # ls)"
  have u1: "\<not> Saved ?mp1" using assms by (simp add: Saved_store)
  have r1: "ResetLayers ?mp1 = Inr ?mp1" using u1 by (rule reset_unsaved)
  have r0: "ResetLayers mp = Inr mp" using assms(2) by (rule reset_unsaved)
  have e: "map_layers (m_handle mp) = []"
    using assms(1) by (simp add: CountLayers_length)
  have ls1: "layerStatus ?mp1 = Some []"
    using assms(2) e by (simp add: storeLayerStatus_layerStatus flags_def)
  have u2: "\<not> Saved ?mp2" using u1 by (simp add: Saved_def)
  have f2: "flags (m_handle ?mp2) = map layer_active (l # ls)"
    using e by (simp add: handle_foldl_AddLayer flags_def AddLayer_def mapnik_map_add_layer_def)
  have s2: "layerStatus (storeLayerStatus ?mp2) = Some (map layer_active (l # ls))"
    using u2 f2 by (simp add: storeLayerStatus_layerStatus)
  have "layerStatus ?mp2 = Some []" using ls1 by simp
  with s2 have ne: "storeLayerStatus ?mp2 \<noteq> ?mp2" by auto
  have sv: "Saved (storeLayerStatus ?mp2)" using s2 by (simp add: Saved_def)
  show ?thesis using u1 r1 r0 s2 ne sv by blast
qed

text \<open>
  The map \<^verbatim>\<open>New()\<close> returns, and two layers added after the first capture.
\<close>

theorem storeLayerStatus_zero_layers_witness:
  "CountLayers new_map = 0 \<and> \<not> Saved new_map \<and>
   \<not> Saved (storeLayerStatus new_map) \<and>
   ResetLayers (storeLayerStatus new_map) = Inr (storeLayerStatus new_map) \<and>
   layerStatus (storeLayerStatus
      (foldl AddLayer (storeLayerStatus new_map) [test_layer ''layerA'' True, test_layer ''layerB'' False])) =
     Some [True, False]"
proof -
  have a: "CountLayers new_map = 0" by code_simp
  have b: "\<not> Saved new_map" by code_simp
  show ?thesis
    using a b
      storeLayerStatus_zero_layers [OF a b, of "test_layer ''layerA'' True" "[test_layer ''layerB'' False]"]
    by (simp add: test_layer_def)
qed

text \<open>
  Claim C10. When \<^verbatim>\<open>ResetLayers\<close> refuses because the layer count exceeds the length of
  the stored snapshot, the whole map is as before: the snapshot is retained (the machine
  stays Saved) and every flag is as it was. A later \<^verbatim>\<open>ResetLayers\<close> on any map \<open>mp2\<close>
  that holds the same snapshot and has at most as many layers as the snapshot is long applies
  it: layer \<open>i\<close> gets flag \<open>i\<close> of the original snapshot, and the snapshot is discarded.
\<close>

theorem ResetLayers_refusal_keeps_session:
  assumes "Saved mp" and "len (layerStatus mp) < CountLayers mp"
  shows "ResetLayers mp = Inr mp \<and>
         (\<forall>mp2. layerStatus mp2 = layerStatus mp \<and> CountLayers mp2 \<le> len (layerStatus mp) \<longrightarrow>
            (\<exists>mp3. ResetLayers mp2 = Inr mp3 \<and>
               flags (m_handle mp3) = take (CountLayers mp2) (elems (layerStatus mp)) \<and>
               names (m_handle mp3) = names (m_handle mp2) \<and>
               layerStatus mp3 = None))"
proof (intro conjI allI impI)
  show "ResetLayers mp = Inr mp" using assms(2) by (rule reset_refuses)
next
  fix mp2
  assume h: "layerStatus mp2 = layerStatus mp \<and> CountLayers mp2 \<le> len (layerStatus mp)"
  then have sv: "Saved mp2" using assms(1) by (simp add: Saved_def)
  from h have le: "CountLayers mp2 \<le> len (layerStatus mp2)" by simp
  let ?st = "elems (layerStatus mp)"
  let ?mp3 = "mp2\<lparr>m_handle := fold (reset_step ?st) [0..<CountLayers mp2] (m_handle mp2),
                   layerStatus := None\<rparr>"
  have r: "ResetLayers mp2 = Inr ?mp3"
    using reset_applies [OF sv le] h by simp
  have "length (map_layers (m_handle mp2)) \<le> length ?st"
    using h by (cases "layerStatus mp") (simp_all add: CountLayers_length)
  then have f: "flags (m_handle ?mp3) = take (CountLayers mp2) ?st"
    using reset_fold_flags [of "m_handle mp2" ?st] by (simp add: CountLayers_length)
  show "\<exists>mp3. ResetLayers mp2 = Inr mp3 \<and>
               flags (m_handle mp3) = take (CountLayers mp2) (elems (layerStatus mp)) \<and>
               names (m_handle mp3) = names (m_handle mp2) \<and>
               layerStatus mp3 = None"
    using r f by simp
qed

text \<open>
  The refusing map has two layers and a snapshot of length 1; the map with the same snapshot
  and one layer is restored.
\<close>

theorem ResetLayers_refusal_keeps_session_witness:
  "Saved grown_map \<and> len (layerStatus grown_map) < CountLayers grown_map \<and>
   ResetLayers grown_map = Inr grown_map \<and>
   layerStatus (SelectLayers exclude_all map_A) = layerStatus grown_map \<and>
   CountLayers (SelectLayers exclude_all map_A) \<le> len (layerStatus grown_map) \<and>
   (\<exists>mp3. ResetLayers (SelectLayers exclude_all map_A) = Inr mp3 \<and>
      flags (m_handle mp3) = [True] \<and> layerStatus mp3 = None)"
proof -
  have a: "Saved grown_map" by code_simp
  have b: "len (layerStatus grown_map) < CountLayers grown_map" by code_simp
  have c: "layerStatus (SelectLayers exclude_all map_A) = layerStatus grown_map" by code_simp
  have d: "CountLayers (SelectLayers exclude_all map_A) \<le> len (layerStatus grown_map)" by code_simp
  have e: "take (CountLayers (SelectLayers exclude_all map_A)) (elems (layerStatus grown_map)) = [True]"
    by code_simp
  note R = ResetLayers_refusal_keeps_session [OF a b]
  from R [THEN conjunct2, rule_format, of "SelectLayers exclude_all map_A"] c d e
  have "\<exists>mp3. ResetLayers (SelectLayers exclude_all map_A) = Inr mp3 \<and>
      flags (m_handle mp3) = [True] \<and> layerStatus mp3 = None"
    by auto
  then show ?thesis
    using a b c d R [THEN conjunct1] by simp
qed

section \<open>Canvas, rendering and encoding\<close>

lemma fix_aspect_ratio_frame [simp]:
  "map_srs (fix_aspect_ratio nm) = map_srs nm"
  "map_layers (fix_aspect_ratio nm) = map_layers nm"
  "map_aspect_fix_mode (fix_aspect_ratio nm) = map_aspect_fix_mode nm"
  "set_active_calls (fix_aspect_ratio nm) = set_active_calls nm"
  by (simp_all add: fix_aspect_ratio_def Let_def)








lemma render_scale_factor:
  "(if ScaleFactor opts = 0 then 1 else ScaleFactor opts) = sf \<Longrightarrow>
   Render E opts mp =
     (case rasterize E (m_handle mp) (Scale opts) sf of
        Inl err \<Rightarrow> (None, Some (''mapnik: '' @ err))
      | Inr i \<Rightarrow>
          (if Format opts = ''raw'' then (Some (image_to_raw E i), None)
           else (case codec E (if Format opts \<noteq> [] then Format opts else ''png256'') of
                   Inl err \<Rightarrow> (None, Some (''mapnik: '' @ err))
                 | Inr enc \<Rightarrow> (Some (enc i), None))))"
  by (auto simp: Render_def Let_def mapnik_map_render_to_image_def mapnik_image_to_raw_def
      mapnik_image_to_blob_def split: sum.splits)

lemma render_to_file_scale_factor:
  "(if ScaleFactor opts = 0 then 1 else ScaleFactor opts) = sf \<Longrightarrow>
   RenderToFile E opts path mp fs =
     (case rasterize E (m_handle mp) (Scale opts) sf of
        Inl err \<Rightarrow> (Some (''mapnik: '' @ err), fs)
      | Inr i \<Rightarrow>
          (case codec E (if Format opts \<noteq> [] then Format opts else ''png256'') of
             Inl err \<Rightarrow> (Some (''mapnik: '' @ err), fs)
           | Inr enc \<Rightarrow> (None, fs(C_CString path \<mapsto> enc i))))"
  by (auto simp: RenderToFile_def Let_def mapnik_map_render_to_file_def split: sum.splits)




text \<open>
  The stride wraps as Go's \<^verbatim>\<open>int\<close> does: a map resized to a width of \<open>2 ^ 62\<close> has the
  native width 0 (the low 32 bits) and an image of stride 0.
\<close>

lemma RenderImage_stride_wraps:
  "RenderImage test_engine opts_png24 (Resize 4611686018427387904 1 new_map) =
     (Some (NRGBA [] 0 (Rect 0 0 4611686018427387904 1)), None)"
  by code_simp


text \<open>
  Claim C6, as amended. When the codec registry does not recognize the format handed to the
  engine (the format of the options, or \<^verbatim>\<open>png256\<close> for the empty string):
  \<^verbatim>\<open>RenderToFile\<close> fails with an error and leaves the file system as it was, and
  \<^verbatim>\<open>Render\<close> returns no bytes and an error unless the format is \<^verbatim>\<open>"raw"\<close>.
\<close>

theorem render_unrecognized_format:
  assumes "codec E (if Format opts \<noteq> [] then Format opts else ''png256'') = Inl err"
  shows "(Format opts \<noteq> ''raw'' \<longrightarrow>
            (\<exists>e. Render E opts mp = (None, Some e))) \<and>
         (\<exists>e. RenderToFile E opts path mp fs = (Some e, fs))"
proof -
  define sf where "sf = (if ScaleFactor opts = 0 then 1 else ScaleFactor opts)"
  have sf: "(if ScaleFactor opts = 0 then 1 else ScaleFactor opts) = sf"
    by (simp add: sf_def)
  note R = render_scale_factor [OF sf, of E mp]
  note F = render_to_file_scale_factor [OF sf, of E path mp fs]
  show ?thesis
    using R F assms by (cases "rasterize E (m_handle mp) (Scale opts) sf") simp_all
qed

text \<open>
  The format of \<^verbatim>\<open>TestRenderInvalidFormat\<close>.
\<close>

theorem render_unrecognized_format_witness:
  "codec test_engine (if Format opts_invalid \<noteq> [] then Format opts_invalid else ''png256'') =
     Inl ''unknown file type: invalidformat'' \<and>
   Format opts_invalid \<noteq> ''raw'' \<and>
   (\<exists>e. Render test_engine opts_invalid small_map = (None, Some e)) \<and>
   (\<exists>e. RenderToFile test_engine opts_invalid ''out.png'' small_map Map.empty = (Some e, Map.empty))"
proof -
  have a: "codec test_engine (if Format opts_invalid \<noteq> [] then Format opts_invalid else ''png256'') =
     Inl ''unknown file type: invalidformat''"
    by (simp add: test_engine_def test_codec_def opts_invalid_def)
  have b: "Format opts_invalid \<noteq> ''raw''" by (simp add: opts_invalid_def)
  show ?thesis
    using a b render_unrecognized_format [OF a, of small_map "''out.png''" Map.empty]
    by simp
qed

text \<open>
  Claim C6 as stated fails for the format \<^verbatim>\<open>"raw"\<close>: the codec registry of the test
  engine does not recognize it, and \<^verbatim>\<open>Render\<close> returns the raw pixel buffer without an
  error, since it never asks the registry.
\<close>

theorem render_raw_unrecognized_counterexample:
  "codec test_engine (if Format opts_raw \<noteq> [] then Format opts_raw else ''png256'') =
     Inl ''unknown file type: raw'' \<and>
   Render test_engine opts_raw small_map = (Some [0, 0, 0, 0, 0, 0, 0, 0], None)"
proof -
  have "codec test_engine (if Format opts_raw \<noteq> [] then Format opts_raw else ''png256'') =
     Inl ''unknown file type: raw''"
    by (simp add: test_engine_def test_codec_def opts_raw_def)
  moreover have "Render test_engine opts_raw small_map = (Some [0, 0, 0, 0, 0, 0, 0, 0], None)"
    by code_simp
  ultimately show ?thesis by simp
qed

text \<open>
  Claim C7, as amended. For every non-empty pixel buffer that covers the bounds,
  \<^verbatim>\<open>Encode\<close> treats the \<^verbatim>\<open>*image.RGBA\<close> exactly as the \<^verbatim>\<open>*image.NRGBA\<close> with the same
  \<^verbatim>\<open>Pix\<close>, \<^verbatim>\<open>Stride\<close> and \<^verbatim>\<open>Rect\<close>: the buffer reaches the native encoder as it is,
  premultiplied or not, and the result is the error "unable to create image from raw" when
  the engine gives no image, the error of the codec registry when it does not recognize the
  format, and the encoder's bytes for the image made of the unchanged buffer otherwise. Any
  image of another kind fails with the error "unable to create image from raw".
\<close>

theorem Encode_layouts:
  assumes "pix \<noteq> []" and "buffer_covers pix r"
  shows "Encode E (RGBA pix stride r) format = Encode E (NRGBA pix stride r) format \<and>
         Encode E (NRGBA pix stride r) format =
           (case mapnik_image_from_raw E pix (C_int (Dx r)) (C_int (Dy r)) of
              None \<Rightarrow> Inr (None, Some ''unable to create image from raw'')
            | Some i \<Rightarrow>
                (case codec E format of
                   Inl err \<Rightarrow> Inr (None, Some (''mapnik: '' @ err))
                 | Inr enc \<Rightarrow> Inr (Some (enc i), None))) \<and>
         Encode E OtherImage format = Inr (None, Some ''unable to create image from raw'')"
  using assms(1)
  by (simp add: Encode_def Encode_from_raw_def mapnik_image_to_blob_def
      split: option.splits sum.splits)

text \<open>
  A premultiplied pixel, a format the registry does not know, and an image of another kind.
\<close>

theorem Encode_layouts_witness:
  "[128, 128, 128, 128] \<noteq> ([] :: bytes) \<and>
   buffer_covers [128, 128, 128, 128] (Rect 0 0 1 1) \<and>
   Encode test_engine (RGBA [128, 128, 128, 128] 4 (Rect 0 0 1 1)) ''png'' =
     Inr (Some [3, 128, 128, 128, 128], None) \<and>
   Encode test_engine (NRGBA [128, 128, 128, 128] 4 (Rect 0 0 1 1)) ''invalid'' =
     Inr (None, Some ''mapnik: unknown file type: invalid'') \<and>
   Encode test_engine OtherImage ''png'' = Inr (None, Some ''unable to create image from raw'')"
proof -
  have ne: "[128, 128, 128, 128] \<noteq> ([] :: bytes)" by simp
  have bc: "buffer_covers [128, 128, 128, 128] (Rect 0 0 1 1)" by code_simp
  note E = Encode_layouts [OF ne bc, of test_engine 4]
  have fr: "mapnik_image_from_raw test_engine [128, 128, 128, 128] (C_int (Dx (Rect 0 0 1 1)))
      (C_int (Dy (Rect 0 0 1 1))) = Some ([128, 128, 128, 128], 1, 1)"
    by code_simp
  have c1: "codec test_engine ''png'' = Inr (\<lambda>(pix, w, h). of_nat (length ''png'') # pix)"
    by (simp add: test_engine_def test_codec_def)
  have c2: "codec test_engine ''invalid'' = Inl ''unknown file type: invalid''"
    by (simp add: test_engine_def test_codec_def)
  have a: "Encode test_engine (RGBA [128, 128, 128, 128] 4 (Rect 0 0 1 1)) ''png'' =
     Inr (Some [3, 128, 128, 128, 128], None)"
    using E [of "''png''"] fr c1 by simp
  have b: "Encode test_engine (NRGBA [128, 128, 128, 128] 4 (Rect 0 0 1 1)) ''invalid'' =
     Inr (None, Some ''mapnik: unknown file type: invalid'')"
    using E [of "''invalid''"] fr c2 by simp
  have c: "Encode test_engine OtherImage ''png'' = Inr (None, Some ''unable to create image from raw'')"
    using E [of "''png''"] by simp
  show ?thesis using ne bc a b c by simp
qed

text \<open>
  Claim C7 as stated fails where it says that premultiplication is normalized away. The
  non-premultiplied pixel (255, 255, 255, 128) and the premultiplied pixel
  (128, 128, 128, 128) are the same colour, yet the encoder receives each buffer as it is and
  the two images encode to different bytes.
\<close>

theorem Encode_premultiplied_counterexample:
  "premultiply [255, 255, 255, 128] = [128, 128, 128, 128] \<and>
   Encode test_engine (NRGBA [255, 255, 255, 128] 4 (Rect 0 0 1 1)) ''png'' =
     Inr (Some [3, 255, 255, 255, 128], None) \<and>
   Encode test_engine (RGBA [128, 128, 128, 128] 4 (Rect 0 0 1 1)) ''png'' =
     Inr (Some [3, 128, 128, 128, 128], None)"
proof -
  have "premultiply [255, 255, 255, 128] = [128, 128, 128, 128]"
    by (simp add: premultiply_channel_def)
  moreover have "Encode test_engine (NRGBA [255, 255, 255, 128] 4 (Rect 0 0 1 1)) ''png'' =
     Inr (Some [3, 255, 255, 255, 128], None)"
    by code_simp
  moreover have "Encode test_engine (RGBA [128, 128, 128, 128] 4 (Rect 0 0 1 1)) ''png'' =
     Inr (Some [3, 128, 128, 128, 128], None)"
    by code_simp
  ultimately show ?thesis by simp
qed

end
